theory Spec2Isabelle
  imports Main
begin

section \<open>TargetPool: the caching pool of the static analysis\<close>

text \<open>
  The class \<^verbatim>\<open>TargetPool\<close> memoizes the source text, the syntax tree, the target and
  function maps and the control-flow graph of Solidity files, and assembles
  \<^verbatim>\<open>Target\<close> objects. Its methods mutate the maps held in the object and may throw;
  here every method takes the pool and returns the result, an error or a value,
  together with the pool it leaves behind. A throw keeps the mutations made before it.
\<close>

subsection \<open>Errors, collaborators, state\<close>

text \<open>
  \<^verbatim>\<open>TypeError\<close> is what JavaScript raises when a method is called on \<^verbatim>\<open>undefined\<close>;
  \<^verbatim>\<open>Error msg\<close> is \<^verbatim>\<open>new Error(msg)\<close>. The generators may throw either.
\<close>

datatype error = TypeError | Error string

text \<open>
  The pool calls four generators and the dependency analyzer. Each call is recorded,
  with its argument, in the order it is made.
\<close>

datatype 'ast invocation =
    SourceGen string
  | ASTGen string
  | TargetMapGen 'ast
  | CFGGen 'ast
  | Analysis string string

text \<open>
  The \<^verbatim>\<open>Target\<close> class, as \<^verbatim>\<open>createTarget\<close> constructs it: the nine constructor
  arguments in order. \<^verbatim>\<open>getCFG\<close> reads its field \<^verbatim>\<open>controlFlowGraph\<close>.
\<close>

record ('ast, 'cf, 'cfg, 'ctx, 'lg, 'dep) target =
  target_path :: string
  target_name :: string
  target_source :: string
  target_abstractSyntaxTree :: 'ast
  target_context :: 'ctx
  target_functionMap :: "string \<rightharpoonup> 'cf"
  controlFlowGraph :: 'cfg
  target_linkingGraph :: 'lg
  target_dependencies :: 'dep

text \<open>
  The fields of the pool. \<^verbatim>\<open>_targets\<close> is declared but the constructor does not assign
  it, so it may be \<^verbatim>\<open>undefined\<close>: \<open>None\<close>. The list \<open>invocations\<close> is not a field of
  the class: it is the record of the calls the pool has made to its collaborators.
\<close>

record ('ast, 'cm, 'cf, 'cfg, 'ctx, 'lg, 'dep) pool =
  targets :: "(string \<rightharpoonup> (string \<rightharpoonup> ('ast, 'cf, 'cfg, 'ctx, 'lg, 'dep) target)) option"
  sources :: "string \<rightharpoonup> string"
  abstractSyntaxTrees :: "string \<rightharpoonup> 'ast"
  targetMap :: "string \<rightharpoonup> (string \<rightharpoonup> 'cm)"
  functionMaps :: "string \<rightharpoonup> (string \<rightharpoonup> (string \<rightharpoonup> 'cf))"
  controlFlowGraphs :: "string \<rightharpoonup> 'cfg"
  invocations :: "'ast invocation list"

text \<open>
  The collaborators: Node's \<^verbatim>\<open>path.resolve\<close> (for the working directory of the process),
  the four generators handed to the constructor, and the dependency analysis of
  \<^verbatim>\<open>createTarget\<close> (\<^verbatim>\<open>analyzeImports\<close>, \<^verbatim>\<open>analyzeContext\<close>, \<^verbatim>\<open>analyzeInheritance\<close>,
  \<^verbatim>\<open>getNodes\<close>, \<^verbatim>\<open>analyzeLinking\<close>), whose classes are not part of the sources at hand.
  A generator sees the calls made so far, so it need not return the same object twice;
  it returns or throws. The analyzer holds the pool and may call its methods, so it
  returns a pool as well.
\<close>

record ('ast, 'cm, 'cf, 'cfg, 'ctx, 'lg, 'dep) env =
  resolve :: "string \<Rightarrow> string"
  sourceGenerator :: "'ast invocation list \<Rightarrow> string \<Rightarrow> error + string"
  abstractSyntaxTreeGenerator :: "'ast invocation list \<Rightarrow> string \<Rightarrow> error + 'ast"
  targetMapGenerator ::
    "'ast invocation list \<Rightarrow> 'ast \<Rightarrow>
       error + ((string \<rightharpoonup> 'cm) \<times> (string \<rightharpoonup> (string \<rightharpoonup> 'cf)))"
  controlFlowGraphGenerator :: "'ast invocation list \<Rightarrow> 'ast \<Rightarrow> error + 'cfg"
  analyze ::
    "string \<Rightarrow> string \<Rightarrow> ('ast, 'cm, 'cf, 'cfg, 'ctx, 'lg, 'dep) pool \<Rightarrow>
       (error + ('ctx \<times> 'lg \<times> 'dep)) \<times> ('ast, 'cm, 'cf, 'cfg, 'ctx, 'lg, 'dep) pool"

subsection \<open>The constructor\<close>

text \<open>Five maps are created empty; \<^verbatim>\<open>_targets\<close> is left unassigned.\<close>

definition newTargetPool :: "('ast, 'cm, 'cf, 'cfg, 'ctx, 'lg, 'dep) pool" where
  "newTargetPool =
     \<lparr> targets = None,
       sources = Map.empty,
       abstractSyntaxTrees = Map.empty,
       targetMap = Map.empty,
       functionMaps = Map.empty,
       controlFlowGraphs = Map.empty,
       invocations = [] \<rparr>"

subsection \<open>The getters\<close>

definition getSource ::
  "('ast, 'cm, 'cf, 'cfg, 'ctx, 'lg, 'dep) env \<Rightarrow> string \<Rightarrow>
   ('ast, 'cm, 'cf, 'cfg, 'ctx, 'lg, 'dep) pool \<Rightarrow>
   (error + string) \<times> ('ast, 'cm, 'cf, 'cfg, 'ctx, 'lg, 'dep) pool" where
  "getSource E targetPath s =
     (let absoluteTargetPath = resolve E targetPath in
      case sources s absoluteTargetPath of
        Some source \<Rightarrow> (Inr source, s)
      | None \<Rightarrow>
          (let s0 = s\<lparr>invocations := invocations s @ [SourceGen absoluteTargetPath]\<rparr> in
           case sourceGenerator E (invocations s) absoluteTargetPath of
             Inl e \<Rightarrow> (Inl e, s0)
           | Inr source \<Rightarrow>
               (Inr source, s0\<lparr>sources := (sources s0)(absoluteTargetPath \<mapsto> source)\<rparr>)))"

definition getAST ::
  "('ast, 'cm, 'cf, 'cfg, 'ctx, 'lg, 'dep) env \<Rightarrow> string \<Rightarrow>
   ('ast, 'cm, 'cf, 'cfg, 'ctx, 'lg, 'dep) pool \<Rightarrow>
   (error + 'ast) \<times> ('ast, 'cm, 'cf, 'cfg, 'ctx, 'lg, 'dep) pool" where
  "getAST E targetPath s =
     (let absoluteTargetPath = resolve E targetPath in
      case abstractSyntaxTrees s absoluteTargetPath of
        Some targetAST \<Rightarrow> (Inr targetAST, s)
      | None \<Rightarrow>
          (case getSource E absoluteTargetPath s of
             (Inl e, s1) \<Rightarrow> (Inl e, s1)
           | (Inr targetSource, s1) \<Rightarrow>
               (let s2 = s1\<lparr>invocations := invocations s1 @ [ASTGen targetSource]\<rparr> in
                case abstractSyntaxTreeGenerator E (invocations s1) targetSource of
                  Inl e \<Rightarrow> (Inl e, s2)
                | Inr targetAST \<Rightarrow>
                    (Inr targetAST,
                     s2\<lparr>abstractSyntaxTrees :=
                          (abstractSyntaxTrees s2)(absoluteTargetPath \<mapsto> targetAST)\<rparr>))))"

definition getTargetMap ::
  "('ast, 'cm, 'cf, 'cfg, 'ctx, 'lg, 'dep) env \<Rightarrow> string \<Rightarrow>
   ('ast, 'cm, 'cf, 'cfg, 'ctx, 'lg, 'dep) pool \<Rightarrow>
   (error + (string \<rightharpoonup> 'cm)) \<times> ('ast, 'cm, 'cf, 'cfg, 'ctx, 'lg, 'dep) pool" where
  "getTargetMap E targetPath s =
     (let absoluteTargetPath = resolve E targetPath in
      case targetMap s absoluteTargetPath of
        Some tm \<Rightarrow> (Inr tm, s)
      | None \<Rightarrow>
          (case getAST E absoluteTargetPath s of
             (Inl e, s1) \<Rightarrow> (Inl e, s1)
           | (Inr targetAST, s1) \<Rightarrow>
               (let s2 = s1\<lparr>invocations := invocations s1 @ [TargetMapGen targetAST]\<rparr> in
                case targetMapGenerator E (invocations s1) targetAST of
                  Inl e \<Rightarrow> (Inl e, s2)
                | Inr (tm, fm) \<Rightarrow>
                    (Inr tm,
                     s2\<lparr>targetMap := (targetMap s2)(absoluteTargetPath \<mapsto> tm),
                        functionMaps := (functionMaps s2)(absoluteTargetPath \<mapsto> fm)\<rparr>))))"

text \<open>
  \<^verbatim>\<open>getFunctionMap\<close> first fills the two maps when \<^verbatim>\<open>_functionMaps\<close> has no entry for
  the file (\<open>populate\<close>, the body of its first \<^verbatim>\<open>if\<close>), then looks the target name up
  in the entry of \<^verbatim>\<open>_functionMaps\<close>. The message of the error has the path as the
  caller gave it.
\<close>

definition populate ::
  "('ast, 'cm, 'cf, 'cfg, 'ctx, 'lg, 'dep) env \<Rightarrow> string \<Rightarrow>
   ('ast, 'cm, 'cf, 'cfg, 'ctx, 'lg, 'dep) pool \<Rightarrow>
   (error + unit) \<times> ('ast, 'cm, 'cf, 'cfg, 'ctx, 'lg, 'dep) pool" where
  "populate E absoluteTargetPath s =
     (case functionMaps s absoluteTargetPath of
        Some fm \<Rightarrow> (Inr (), s)
      | None \<Rightarrow>
          (case getAST E absoluteTargetPath s of
             (Inl e, s1) \<Rightarrow> (Inl e, s1)
           | (Inr targetAST, s1) \<Rightarrow>
               (let s2 = s1\<lparr>invocations := invocations s1 @ [TargetMapGen targetAST]\<rparr> in
                case targetMapGenerator E (invocations s1) targetAST of
                  Inl e \<Rightarrow> (Inl e, s2)
                | Inr (tm, fm) \<Rightarrow>
                    (Inr (),
                     s2\<lparr>targetMap := (targetMap s2)(absoluteTargetPath \<mapsto> tm),
                        functionMaps := (functionMaps s2)(absoluteTargetPath \<mapsto> fm)\<rparr>))))"

definition notFound :: "string \<Rightarrow> string \<Rightarrow> error" where
  "notFound targetName targetPath =
     Error (''Target '' @ targetName @ '' could not be found at '' @ targetPath)"

definition getFunctionMap ::
  "('ast, 'cm, 'cf, 'cfg, 'ctx, 'lg, 'dep) env \<Rightarrow> string \<Rightarrow> string \<Rightarrow>
   ('ast, 'cm, 'cf, 'cfg, 'ctx, 'lg, 'dep) pool \<Rightarrow>
   (error + (string \<rightharpoonup> 'cf)) \<times> ('ast, 'cm, 'cf, 'cfg, 'ctx, 'lg, 'dep) pool" where
  "getFunctionMap E targetPath targetName s =
     (let absoluteTargetPath = resolve E targetPath in
      case populate E absoluteTargetPath s of
        (Inl e, s1) \<Rightarrow> (Inl e, s1)
      | (Inr u, s1) \<Rightarrow>
          (case functionMaps s1 absoluteTargetPath of
             None \<Rightarrow> (Inl TypeError, s1)
           | Some fm \<Rightarrow>
               (case fm targetName of
                  Some functions \<Rightarrow> (Inr functions, s1)
                | None \<Rightarrow> (Inl (notFound targetName targetPath), s1))))"

text \<open>
  \<^verbatim>\<open>getCFG\<close> calls \<^verbatim>\<open>this._targets.has\<close> first, which throws when \<^verbatim>\<open>_targets\<close> is
  undefined. When a target of that name is stored under the absolute path, its graph
  is returned. Every other path through the two \<^verbatim>\<open>if\<close>s falls through to the
  generator, and the result is put into \<^verbatim>\<open>_controlFlowGraphs\<close> under the absolute path.
\<close>

definition getCFG ::
  "('ast, 'cm, 'cf, 'cfg, 'ctx, 'lg, 'dep) env \<Rightarrow> string \<Rightarrow> string \<Rightarrow>
   ('ast, 'cm, 'cf, 'cfg, 'ctx, 'lg, 'dep) pool \<Rightarrow>
   (error + 'cfg) \<times> ('ast, 'cm, 'cf, 'cfg, 'ctx, 'lg, 'dep) pool" where
  "getCFG E targetPath targetName s =
     (let absoluteTargetPath = resolve E targetPath in
      case targets s of
        None \<Rightarrow> (Inl TypeError, s)
      | Some ts \<Rightarrow>
          (case (case ts absoluteTargetPath of None \<Rightarrow> None | Some m \<Rightarrow> m targetName) of
             Some t \<Rightarrow> (Inr (controlFlowGraph t), s)
           | None \<Rightarrow>
               (case getAST E absoluteTargetPath s of
                  (Inl e, s1) \<Rightarrow> (Inl e, s1)
                | (Inr targetAST, s1) \<Rightarrow>
                    (let s2 = s1\<lparr>invocations := invocations s1 @ [CFGGen targetAST]\<rparr> in
                     case controlFlowGraphGenerator E (invocations s1) targetAST of
                       Inl e \<Rightarrow> (Inl e, s2)
                     | Inr cfg \<Rightarrow>
                         (Inr cfg,
                          s2\<lparr>controlFlowGraphs :=
                               (controlFlowGraphs s2)(absoluteTargetPath \<mapsto> cfg)\<rparr>)))))"

subsection \<open>Assembling a target\<close>

text \<open>
  The last lines of \<^verbatim>\<open>createTarget\<close> use \<^verbatim>\<open>targetPath\<close>, the path as given, as the key
  of \<^verbatim>\<open>_targets\<close>. When \<^verbatim>\<open>_targets\<close> has that key the entry is replaced by a new empty
  map (\<open>storeTarget\<close>); then the entry is fetched and the target is put into it, which
  throws when there is no entry.
\<close>

definition storeTarget ::
  "string \<Rightarrow> string \<Rightarrow> ('ast, 'cf, 'cfg, 'ctx, 'lg, 'dep) target \<Rightarrow>
   ('ast, 'cm, 'cf, 'cfg, 'ctx, 'lg, 'dep) pool \<Rightarrow>
   (error + ('ast, 'cf, 'cfg, 'ctx, 'lg, 'dep) target) \<times>
     ('ast, 'cm, 'cf, 'cfg, 'ctx, 'lg, 'dep) pool" where
  "storeTarget targetPath targetName t s =
     (case targets s of
        None \<Rightarrow> (Inl TypeError, s)
      | Some ts \<Rightarrow>
          (let ts1 = (if ts targetPath \<noteq> None then ts(targetPath \<mapsto> Map.empty) else ts) in
           case ts1 targetPath of
             None \<Rightarrow> (Inl TypeError, s\<lparr>targets := Some ts1\<rparr>)
           | Some m \<Rightarrow>
               (Inr t, s\<lparr>targets := Some (ts1(targetPath \<mapsto> m(targetName \<mapsto> t)))\<rparr>)))"

definition createTarget ::
  "('ast, 'cm, 'cf, 'cfg, 'ctx, 'lg, 'dep) env \<Rightarrow> string \<Rightarrow> string \<Rightarrow>
   ('ast, 'cm, 'cf, 'cfg, 'ctx, 'lg, 'dep) pool \<Rightarrow>
   (error + ('ast, 'cf, 'cfg, 'ctx, 'lg, 'dep) target) \<times>
     ('ast, 'cm, 'cf, 'cfg, 'ctx, 'lg, 'dep) pool" where
  "createTarget E targetPath targetName s =
     (let absoluteTargetPath = resolve E targetPath in
      case getSource E absoluteTargetPath s of
        (Inl e, s1) \<Rightarrow> (Inl e, s1)
      | (Inr source, s1) \<Rightarrow>
      (case getAST E absoluteTargetPath s1 of
        (Inl e, s2) \<Rightarrow> (Inl e, s2)
      | (Inr abstractSyntaxTree, s2) \<Rightarrow>
      (case getFunctionMap E absoluteTargetPath targetName s2 of
        (Inl e, s3) \<Rightarrow> (Inl e, s3)
      | (Inr functionMap, s3) \<Rightarrow>
      (case getCFG E absoluteTargetPath targetName s3 of
        (Inl e, s4) \<Rightarrow> (Inl e, s4)
      | (Inr cfg, s4) \<Rightarrow>
      (case analyze E targetPath targetName s4 of
        (Inl e, s5) \<Rightarrow> (Inl e, s5)
      | (Inr (ctx, linkingGraph, deps), s5) \<Rightarrow>
          storeTarget targetPath targetName
            \<lparr> target_path = absoluteTargetPath,
              target_name = targetName,
              target_source = source,
              target_abstractSyntaxTree = abstractSyntaxTree,
              target_context = ctx,
              target_functionMap = functionMap,
              controlFlowGraph = cfg,
              target_linkingGraph = linkingGraph,
              target_dependencies = deps \<rparr>
            s5)))))"

subsection \<open>Counting invocations\<close>

text \<open>The kinds of invocation, to count the calls made to one collaborator.\<close>

fun isSourceGen :: "'ast invocation \<Rightarrow> bool" where
  "isSourceGen (SourceGen a) = True"
| "isSourceGen _ = False"

fun isASTGen :: "'ast invocation \<Rightarrow> bool" where
  "isASTGen (ASTGen a) = True"
| "isASTGen _ = False"

fun isTargetMapGen :: "'ast invocation \<Rightarrow> bool" where
  "isTargetMapGen (TargetMapGen a) = True"
| "isTargetMapGen _ = False"



subsection \<open>Reading the target table\<close>

text \<open>
  The target stored in \<^verbatim>\<open>_targets\<close> under a path and a name, if there is one: what
  the two \<^verbatim>\<open>has\<close> tests and the \<^verbatim>\<open>get\<close> of \<^verbatim>\<open>getCFG\<close> find, read without
  throwing.
\<close>

definition storedTarget ::
  "('ast, 'cm, 'cf, 'cfg, 'ctx, 'lg, 'dep) pool \<Rightarrow> string \<Rightarrow> string \<Rightarrow>
   ('ast, 'cf, 'cfg, 'ctx, 'lg, 'dep) target option" where
  "storedTarget s targetPath targetName =
     (case targets s of
        None \<Rightarrow> None
      | Some ts \<Rightarrow> (case ts targetPath of None \<Rightarrow> None | Some m \<Rightarrow> m targetName))"

subsection \<open>The pools the code can produce\<close>




text \<open>
  What holds of these pools. \<open>paired\<close>: the target-map cache and the function-map
  cache have entries for the same files. \<open>grows s s'\<close>: from \<open>s\<close> to \<open>s'\<close> the target
  table, the graph cache and the calls made to the graph generator are the same, and
  the other caches have kept every entry they had. \<open>poolInv\<close>: no target table, the
  two map caches paired, no graph cached and the graph generator never called.
\<close>

definition paired ::
  "('ast, 'cm, 'cf, 'cfg, 'ctx, 'lg, 'dep) pool \<Rightarrow> bool" where
  "paired s \<longleftrightarrow> (\<forall>q. (targetMap s q = None) = (functionMaps s q = None))"



subsection \<open>Example collaborators\<close>

text \<open>
  Collaborators to run the pool on concrete inputs. Paths are resolved against the
  working directory \<^verbatim>\<open>/cwd\<close> (paths without \<^verbatim>\<open>.\<close> and \<^verbatim>\<open>..\<close> segments only). The
  parser and the graph factory return a new object at each call, here the number of
  invocations made before. Every file declares the contracts \<^verbatim>\<open>A\<close> and \<^verbatim>\<open>B\<close>.
\<close>

definition exampleResolve :: "string \<Rightarrow> string" where
  "exampleResolve p =
     (case p of [] \<Rightarrow> ''/cwd'' | c # cs \<Rightarrow> if c = CHR ''/'' then p else ''/cwd/'' @ p)"

definition exampleEnv :: "(nat, nat, nat, nat, unit, unit, string list) env" where
  "exampleEnv =
     \<lparr> resolve = exampleResolve,
       sourceGenerator = (\<lambda>log p. Inr (''// '' @ p)),
       abstractSyntaxTreeGenerator = (\<lambda>log src. Inr (length log)),
       targetMapGenerator =
         (\<lambda>log ast. Inr ([''A'' \<mapsto> ast, ''B'' \<mapsto> ast],
                          [''A'' \<mapsto> [''f'' \<mapsto> ast], ''B'' \<mapsto> Map.empty])),
       controlFlowGraphGenerator = (\<lambda>log ast. Inr (length log)),
       analyze = (\<lambda>p t s. (Inr ((), (), [exampleResolve p]),
                    s\<lparr>invocations := invocations s @ [Analysis p t]\<rparr>)) \<rparr>"

text \<open>
  Collaborators that fail: the file \<^verbatim>\<open>/missing.sol\<close> cannot be read, and the parser
  rejects every source.
\<close>

definition brokenEnv :: "(nat, nat, nat, nat, unit, unit, string list) env" where
  "brokenEnv =
     exampleEnv
     \<lparr> sourceGenerator :=
         (\<lambda>log p. if p = ''/missing.sol'' then Inl (Error ''ENOENT'') else Inr (''// '' @ p)),
       abstractSyntaxTreeGenerator := (\<lambda>log src. Inl (Error ''ParserError'')) \<rparr>"

text \<open>
  Example pools: the new pool at the types of the example collaborators, and the pool
  left by \<^verbatim>\<open>getTargetMap("a.sol")\<close> on it.
\<close>

abbreviation examplePool :: "(nat, nat, nat, nat, unit, unit, string list) pool" where
  "examplePool \<equiv> newTargetPool"

definition loadedPool :: "(nat, nat, nat, nat, unit, unit, string list) pool" where
  "loadedPool =
     newTargetPool
     \<lparr> sources := [''/cwd/a.sol'' \<mapsto> ''// /cwd/a.sol''],
       abstractSyntaxTrees := [''/cwd/a.sol'' \<mapsto> 1],
       targetMap := [''/cwd/a.sol'' \<mapsto> [''A'' \<mapsto> 1, ''B'' \<mapsto> 1]],
       functionMaps := [''/cwd/a.sol'' \<mapsto> [''A'' \<mapsto> [''f'' \<mapsto> 1], ''B'' \<mapsto> Map.empty]],
       invocations := [SourceGen ''/cwd/a.sol'', ASTGen ''// /cwd/a.sol'', TargetMapGen 1] \<rparr>"

section \<open>Properties\<close>

subsection \<open>What the getters leave alone\<close>

lemma getSource_targets: "getSource E p s = (r, s') \<Longrightarrow> targets s' = targets s"
  by (auto simp: getSource_def Let_def split: option.splits sum.splits)

lemma getAST_targets: "getAST E p s = (r, s') \<Longrightarrow> targets s' = targets s"
  by (auto simp: getAST_def Let_def dest: getSource_targets
      split: option.splits sum.splits prod.splits)

lemma populate_targets: "populate E p s = (r, s') \<Longrightarrow> targets s' = targets s"
  by (auto simp: populate_def Let_def dest: getAST_targets
      split: option.splits sum.splits prod.splits)

lemma getFunctionMap_targets: "getFunctionMap E p t s = (r, s') \<Longrightarrow> targets s' = targets s"
  by (auto simp: getFunctionMap_def Let_def dest: populate_targets
      split: option.splits sum.splits prod.splits)

lemma getSource_frame:
  assumes "getSource E p s = (r, s')"
  shows "abstractSyntaxTrees s' = abstractSyntaxTrees s"
    and "targetMap s' = targetMap s"
    and "functionMaps s' = functionMaps s"
    and "controlFlowGraphs s' = controlFlowGraphs s"
    and "q \<noteq> resolve E p \<Longrightarrow> sources s' q = sources s q"
  using assms
  by (auto simp: getSource_def Let_def split: option.splits sum.splits)

lemma getAST_frame:
  assumes "getAST E p s = (r, s')"
  shows "targetMap s' = targetMap s"
    and "functionMaps s' = functionMaps s"
    and "controlFlowGraphs s' = controlFlowGraphs s"
    and "q \<noteq> resolve E (resolve E p) \<Longrightarrow> sources s' q = sources s q"
    and "q \<noteq> resolve E p \<Longrightarrow> abstractSyntaxTrees s' q = abstractSyntaxTrees s q"
  using assms
  by (auto simp: getAST_def Let_def dest: getSource_frame
      split: option.splits sum.splits prod.splits)

lemma getTargetMap_frame:
  assumes "getTargetMap E p s = (r, s')"
  shows "controlFlowGraphs s' = controlFlowGraphs s"
    and "q \<noteq> resolve E (resolve E (resolve E p)) \<Longrightarrow> sources s' q = sources s q"
    and "q \<noteq> resolve E (resolve E p) \<Longrightarrow> abstractSyntaxTrees s' q = abstractSyntaxTrees s q"
    and "q \<noteq> resolve E p \<Longrightarrow> targetMap s' q = targetMap s q"
    and "q \<noteq> resolve E p \<Longrightarrow> functionMaps s' q = functionMaps s q"
  using assms
  by (auto simp: getTargetMap_def Let_def dest: getAST_frame
      split: option.splits sum.splits prod.splits)

lemma populate_frame:
  assumes "populate E a s = (r, s')"
  shows "controlFlowGraphs s' = controlFlowGraphs s"
    and "q \<noteq> resolve E (resolve E a) \<Longrightarrow> sources s' q = sources s q"
    and "q \<noteq> resolve E a \<Longrightarrow> abstractSyntaxTrees s' q = abstractSyntaxTrees s q"
    and "q \<noteq> a \<Longrightarrow> targetMap s' q = targetMap s q"
    and "q \<noteq> a \<Longrightarrow> functionMaps s' q = functionMaps s q"
  using assms
  by (auto simp: populate_def Let_def dest: getAST_frame
      split: option.splits sum.splits prod.splits)

lemma getFunctionMap_frame:
  assumes "getFunctionMap E p t s = (r, s')"
  shows "controlFlowGraphs s' = controlFlowGraphs s"
    and "q \<noteq> resolve E (resolve E (resolve E p)) \<Longrightarrow> sources s' q = sources s q"
    and "q \<noteq> resolve E (resolve E p) \<Longrightarrow> abstractSyntaxTrees s' q = abstractSyntaxTrees s q"
    and "q \<noteq> resolve E p \<Longrightarrow> targetMap s' q = targetMap s q"
    and "q \<noteq> resolve E p \<Longrightarrow> functionMaps s' q = functionMaps s q"
  using assms
  by (auto simp: getFunctionMap_def Let_def dest: populate_frame
      split: option.splits sum.splits prod.splits)

lemma getAST_invocations:
  assumes "getAST E p s = (r, s')"
  shows "\<exists>evs. invocations s' = invocations s @ evs \<and> filter isTargetMapGen evs = []"
  using assms
  by (auto simp: getAST_def getSource_def Let_def split: option.splits sum.splits prod.splits)

subsection \<open>Running the pool on the examples\<close>

lemmas run_defs = createTarget_def storeTarget_def getCFG_def getFunctionMap_def populate_def
  getTargetMap_def getAST_def getSource_def exampleEnv_def exampleResolve_def brokenEnv_def
  newTargetPool_def loadedPool_def storedTarget_def notFound_def Let_def

lemma getTargetMap_example:
  "getTargetMap exampleEnv ''a.sol'' examplePool = (Inr [''A'' \<mapsto> 1, ''B'' \<mapsto> 1], loadedPool)"
  by (simp add: run_defs)

lemma getTargetMap_loaded:
  "getTargetMap exampleEnv ''a.sol'' loadedPool = (Inr [''A'' \<mapsto> 1, ''B'' \<mapsto> 1], loadedPool)"
  by (simp add: run_defs)

lemma resolve_example:
  "resolve exampleEnv ''a.sol'' = ''/cwd/a.sol''"
  "resolve exampleEnv ''/b.sol'' = ''/b.sol''"
  "resolve brokenEnv ''/a.sol'' = ''/a.sol''"
  "resolve brokenEnv ''/missing.sol'' = ''/missing.sol''"
  by (simp_all add: exampleEnv_def brokenEnv_def exampleResolve_def)

subsection \<open>The syntax tree is parsed once\<close>

text \<open>
  C1. When \<^verbatim>\<open>getAST(p)\<close> has returned a tree, a second call returns the same tree and
  leaves the pool as it is, the record of invocations included: neither the source
  generator nor the parser is called again. The first call itself called each of them
  at most once.
\<close>

theorem getAST_cached:
  assumes "getAST E p s = (Inr t, s1)"
  shows "getAST E p s1 = (Inr t, s1) \<and>
         (\<exists>evs. invocations s1 = invocations s @ evs \<and>
            length (filter isSourceGen evs) \<le> 1 \<and> length (filter isASTGen evs) \<le> 1)"
  using assms
  by (auto simp: getAST_def getSource_def Let_def split: option.splits sum.splits prod.splits)

theorem getAST_cached_witness:
  "getAST exampleEnv ''a.sol'' newTargetPool =
     (Inr 1, newTargetPool\<lparr> sources := [''/cwd/a.sol'' \<mapsto> ''// /cwd/a.sol''],
        abstractSyntaxTrees := [''/cwd/a.sol'' \<mapsto> 1],
        invocations := [SourceGen ''/cwd/a.sol'', ASTGen ''// /cwd/a.sol'']\<rparr>) \<and>
   getAST exampleEnv ''a.sol''
     (newTargetPool\<lparr> sources := [''/cwd/a.sol'' \<mapsto> ''// /cwd/a.sol''],
        abstractSyntaxTrees := [''/cwd/a.sol'' \<mapsto> 1],
        invocations := [SourceGen ''/cwd/a.sol'', ASTGen ''// /cwd/a.sol'']\<rparr>) =
     (Inr 1, newTargetPool\<lparr> sources := [''/cwd/a.sol'' \<mapsto> ''// /cwd/a.sol''],
        abstractSyntaxTrees := [''/cwd/a.sol'' \<mapsto> 1],
        invocations := [SourceGen ''/cwd/a.sol'', ASTGen ''// /cwd/a.sol'']\<rparr>)"
proof -
  have first: "getAST exampleEnv ''a.sol'' newTargetPool =
     (Inr 1, newTargetPool\<lparr> sources := [''/cwd/a.sol'' \<mapsto> ''// /cwd/a.sol''],
        abstractSyntaxTrees := [''/cwd/a.sol'' \<mapsto> 1],
        invocations := [SourceGen ''/cwd/a.sol'', ASTGen ''// /cwd/a.sol'']\<rparr>)"
    by (simp add: getAST_def getSource_def exampleEnv_def exampleResolve_def
        newTargetPool_def Let_def)
  from getAST_cached [OF first] first show ?thesis by simp
qed

subsection \<open>A new pool has no target table\<close>

lemma getCFG_undefined: "targets s = None \<Longrightarrow> getCFG E p t s = (Inl TypeError, s)"
  by (simp add: getCFG_def)

lemma createTarget_undefined:
  assumes "targets s = None"
  shows "\<exists>e. fst (createTarget E p t s) = Inl e"
  using assms
  by (auto simp: createTarget_def Let_def getCFG_undefined
      dest!: getSource_targets getAST_targets getFunctionMap_targets
      split: sum.splits prod.splits)

text \<open>
  C8. The constructor leaves \<^verbatim>\<open>_targets\<close> undefined. On the pool it returns, whatever
  the collaborators, the path and the target name, \<^verbatim>\<open>getCFG\<close> throws a TypeError
  before it computes anything, and \<^verbatim>\<open>createTarget\<close> ends in an error: neither
  returns a value.
\<close>

theorem fresh_pool_targets_undefined:
  "targets newTargetPool = None \<and>
   getCFG E p t newTargetPool = (Inl TypeError, newTargetPool) \<and>
   (\<exists>e. fst (createTarget E p t newTargetPool) = Inl e)"
  using createTarget_undefined[of newTargetPool E p t]
  by (simp add: getCFG_undefined newTargetPool_def)

subsection \<open>Failures are not cached\<close>

text \<open>
  C7, as stated, fails where the parser throws inside \<^verbatim>\<open>getAST\<close>: the source text
  loaded on the way stays in \<^verbatim>\<open>_sources\<close>, so the pool is not as it was. Here
  \<^verbatim>\<open>getAST("/a.sol")\<close> on a new pool ends in the parser's error and leaves a source
  entry for \<^verbatim>\<open>/a.sol\<close> that was not there before.
\<close>

theorem failed_getAST_keeps_source_counterexample:
  "fst (getAST brokenEnv ''/a.sol'' examplePool) = Inl (Error ''ParserError'') \<and>
   sources examplePool ''/a.sol'' = None \<and>
   sources (snd (getAST brokenEnv ''/a.sol'' examplePool)) ''/a.sol'' = Some ''// /a.sol''"
  by (simp add: run_defs)

text \<open>
  C7, amended. A failed computation is not memoized. When the source generator throws
  inside \<^verbatim>\<open>getSource(p)\<close>, the error is passed on, no cache changes, \<^verbatim>\<open>_sources\<close> has
  no entry for the resolved path, and a second call invokes the generator again. When
  the parser throws inside \<^verbatim>\<open>getAST(p)\<close>, the error is passed on, the pool is the one
  left by the successful \<^verbatim>\<open>getSource\<close> (so only \<^verbatim>\<open>_sources\<close> may have changed),
  \<^verbatim>\<open>_abstractSyntaxTrees\<close> has no entry for the resolved path, and a second call
  invokes the parser again on the same source.
\<close>

theorem failure_not_memoized:
  "(sources s (resolve E p) = None \<and>
    sourceGenerator E (invocations s) (resolve E p) = Inl e \<longrightarrow>
      getSource E p s = (Inl e, s\<lparr>invocations := invocations s @ [SourceGen (resolve E p)]\<rparr>) \<and>
      sources (snd (getSource E p s)) (resolve E p) = None \<and>
      invocations (snd (getSource E p (snd (getSource E p s)))) =
        invocations s @ [SourceGen (resolve E p), SourceGen (resolve E p)]) \<and>
   (abstractSyntaxTrees s (resolve E p) = None \<and>
    getSource E (resolve E p) s = (Inr src, s1) \<and>
    abstractSyntaxTreeGenerator E (invocations s1) src = Inl e' \<longrightarrow>
      getAST E p s = (Inl e', s1\<lparr>invocations := invocations s1 @ [ASTGen src]\<rparr>) \<and>
      abstractSyntaxTrees (snd (getAST E p s)) (resolve E p) = None \<and>
      invocations (snd (getAST E p (snd (getAST E p s)))) =
        invocations s1 @ [ASTGen src, ASTGen src])"
proof (intro conjI impI)
  assume h: "sources s (resolve E p) = None \<and>
    sourceGenerator E (invocations s) (resolve E p) = Inl e"
  then show "getSource E p s =
      (Inl e, s\<lparr>invocations := invocations s @ [SourceGen (resolve E p)]\<rparr>)"
    by (simp add: getSource_def Let_def)
  then show "sources (snd (getSource E p s)) (resolve E p) = None"
    using h by simp
  show "invocations (snd (getSource E p (snd (getSource E p s)))) =
        invocations s @ [SourceGen (resolve E p), SourceGen (resolve E p)]"
    using h by (simp add: getSource_def Let_def split: sum.splits)
next
  assume h: "abstractSyntaxTrees s (resolve E p) = None \<and>
    getSource E (resolve E p) s = (Inr src, s1) \<and>
    abstractSyntaxTreeGenerator E (invocations s1) src = Inl e'"
  then show 1: "getAST E p s = (Inl e', s1\<lparr>invocations := invocations s1 @ [ASTGen src]\<rparr>)"
    by (simp add: getAST_def Let_def)
  have ast1: "abstractSyntaxTrees s1 = abstractSyntaxTrees s"
    using h by (auto simp: getSource_def Let_def split: option.splits sum.splits)
  show "abstractSyntaxTrees (snd (getAST E p s)) (resolve E p) = None"
    using h 1 ast1 by simp
  have hit: "sources s1 (resolve E (resolve E p)) = Some src"
    using h by (auto simp: getSource_def Let_def split: option.splits sum.splits)
  have again: "getSource E (resolve E p) (s1\<lparr>invocations := invocations s1 @ [ASTGen src]\<rparr>) =
      (Inr src, s1\<lparr>invocations := invocations s1 @ [ASTGen src]\<rparr>)"
    using hit by (simp add: getSource_def Let_def)
  show "invocations (snd (getAST E p (snd (getAST E p s)))) =
        invocations s1 @ [ASTGen src, ASTGen src]"
    using h ast1 again by (simp add: 1) (simp add: getAST_def Let_def split: sum.splits)
qed

theorem failure_not_memoized_witness:
  "sources examplePool (resolve brokenEnv ''/missing.sol'') = None \<and>
   sourceGenerator brokenEnv (invocations examplePool) (resolve brokenEnv ''/missing.sol'') =
     Inl (Error ''ENOENT'') \<and>
   fst (getSource brokenEnv ''/missing.sol'' examplePool) = Inl (Error ''ENOENT'') \<and>
   invocations (snd (getSource brokenEnv ''/missing.sol''
       (snd (getSource brokenEnv ''/missing.sol'' examplePool)))) =
     [SourceGen ''/missing.sol'', SourceGen ''/missing.sol''] \<and>
   fst (getAST brokenEnv ''/a.sol'' examplePool) = Inl (Error ''ParserError'') \<and>
   invocations (snd (getAST brokenEnv ''/a.sol'' (snd (getAST brokenEnv ''/a.sol'' examplePool)))) =
     [SourceGen ''/a.sol'', ASTGen ''// /a.sol'', ASTGen ''// /a.sol'']"
proof -
  let ?s1 = "examplePool\<lparr>invocations := [SourceGen ''/a.sol''],
      sources := [''/a.sol'' \<mapsto> ''// /a.sol'']\<rparr>"
  note r = resolve_example(3,4)
  have a: "sources examplePool (resolve brokenEnv ''/missing.sol'') = None \<and>
     sourceGenerator brokenEnv (invocations examplePool) (resolve brokenEnv ''/missing.sol'') =
       Inl (Error ''ENOENT'')"
    by (simp add: r) (simp add: brokenEnv_def newTargetPool_def)
  have b: "abstractSyntaxTrees examplePool (resolve brokenEnv ''/a.sol'') = None \<and>
     getSource brokenEnv (resolve brokenEnv ''/a.sol'') examplePool = (Inr ''// /a.sol'', ?s1) \<and>
     abstractSyntaxTreeGenerator brokenEnv (invocations ?s1) ''// /a.sol'' =
       Inl (Error ''ParserError'')"
    by (simp add: r) (simp add: run_defs)
  note A = failure_not_memoized [of examplePool brokenEnv "''/missing.sol''" "Error ''ENOENT''",
      THEN conjunct1, rule_format, OF a]
  note B = failure_not_memoized [of examplePool brokenEnv "''/a.sol''" _ "''// /a.sol''" ?s1
      "Error ''ParserError''", THEN conjunct2, rule_format, OF b]
  have i: "invocations examplePool = []" "invocations ?s1 = [SourceGen ''/a.sol'']"
    by (simp_all add: newTargetPool_def)
  from a A [THEN conjunct1] A [THEN conjunct2] B [THEN conjunct1] B [THEN conjunct2]
  show ?thesis by (simp add: r i)
qed

subsection \<open>One file does not disturb another\<close>

text \<open>
  C10. Let \<open>p\<close> be a canonical path (\<^verbatim>\<open>path.resolve\<close> returns it as it is) and \<open>q\<close>
  another path. Whether it returns or throws, each of \<^verbatim>\<open>getSource\<close>, \<^verbatim>\<open>getAST\<close>,
  \<^verbatim>\<open>getTargetMap\<close> and \<^verbatim>\<open>getFunctionMap\<close> called on \<open>p\<close> leaves the source, the
  syntax tree, the target map and the function maps stored under \<open>q\<close> as they were.
\<close>

theorem per_path_frame:
  assumes "resolve E p = p" and "q \<noteq> p"
    and "s' = snd (getSource E p s) \<or> s' = snd (getAST E p s) \<or>
         s' = snd (getTargetMap E p s) \<or> s' = snd (getFunctionMap E p t s)"
  shows "sources s' q = sources s q \<and> abstractSyntaxTrees s' q = abstractSyntaxTrees s q \<and>
         targetMap s' q = targetMap s q \<and> functionMaps s' q = functionMaps s q"
proof -
  have src: "getSource E p s = (fst (getSource E p s), snd (getSource E p s))" by simp
  have ast: "getAST E p s = (fst (getAST E p s), snd (getAST E p s))" by simp
  have tm: "getTargetMap E p s = (fst (getTargetMap E p s), snd (getTargetMap E p s))" by simp
  have fm: "getFunctionMap E p t s = (fst (getFunctionMap E p t s), snd (getFunctionMap E p t s))"
    by simp
  from assms(3) consider
      (a) "s' = snd (getSource E p s)" | (b) "s' = snd (getAST E p s)"
    | (c) "s' = snd (getTargetMap E p s)" | (d) "s' = snd (getFunctionMap E p t s)"
    by blast
  then show ?thesis
  proof cases
    case a
    with assms(1,2) show ?thesis by (simp add: getSource_frame [OF src])
  next
    case b
    with assms(1,2) show ?thesis by (simp add: getAST_frame [OF ast])
  next
    case c
    with assms(1,2) show ?thesis by (simp add: getTargetMap_frame [OF tm])
  next
    case d
    with assms(1,2) show ?thesis by (simp add: getFunctionMap_frame [OF fm])
  qed
qed

theorem per_path_frame_witness:
  "resolve exampleEnv ''/b.sol'' = ''/b.sol'' \<and> ''/cwd/a.sol'' \<noteq> ''/b.sol'' \<and>
   fst (getFunctionMap exampleEnv ''/b.sol'' ''A'' loadedPool) = Inr [''f'' \<mapsto> 4] \<and>
   sources (snd (getFunctionMap exampleEnv ''/b.sol'' ''A'' loadedPool)) ''/cwd/a.sol'' =
     Some ''// /cwd/a.sol'' \<and>
   abstractSyntaxTrees (snd (getFunctionMap exampleEnv ''/b.sol'' ''A'' loadedPool)) ''/cwd/a.sol'' =
     Some 1 \<and>
   targetMap (snd (getFunctionMap exampleEnv ''/b.sol'' ''A'' loadedPool)) ''/cwd/a.sol'' =
     targetMap loadedPool ''/cwd/a.sol'' \<and>
   functionMaps (snd (getFunctionMap exampleEnv ''/b.sol'' ''A'' loadedPool)) ''/cwd/a.sol'' =
     functionMaps loadedPool ''/cwd/a.sol''"
proof -
  have r: "resolve exampleEnv ''/b.sol'' = ''/b.sol''" by (rule resolve_example)
  have n: "''/cwd/a.sol'' \<noteq> ''/b.sol''" by simp
  have v: "fst (getFunctionMap exampleEnv ''/b.sol'' ''A'' loadedPool) = Inr [''f'' \<mapsto> 4]"
    by (simp add: run_defs eval_nat_numeral)
  have l: "sources loadedPool ''/cwd/a.sol'' = Some ''// /cwd/a.sol''"
    "abstractSyntaxTrees loadedPool ''/cwd/a.sol'' = Some 1"
    by (simp_all add: loadedPool_def)
  from per_path_frame [OF r n, of "snd (getFunctionMap exampleEnv ''/b.sol'' ''A'' loadedPool)"
      loadedPool "''A''"] r n v l
  show ?thesis by simp
qed

subsection \<open>A target that the file does not declare\<close>

text \<open>
  C5. Let the target map of \<open>p\<close>, as \<^verbatim>\<open>getTargetMap(p)\<close> returns it, have no entry for
  the target name. The function maps of a file are generated together with its target
  map: the two are cached together or not at all, and the function maps have entries
  for declared targets only. Then \<^verbatim>\<open>getFunctionMap(p, targetName)\<close> throws an error
  whose message has the target name and the path as the caller gave it. It leaves the
  pool that \<^verbatim>\<open>getTargetMap(p)\<close> leaves: every target map and every function map that
  was cached before is still there, the same; and when the maps of \<open>p\<close> were cached
  before, nothing has changed at all.
\<close>

theorem getFunctionMap_unknown_target:
  assumes both: "(targetMap s (resolve E p) = None) = (functionMaps s (resolve E p) = None)"
    and tm: "getTargetMap E p s = (Inr tm, s1)"
    and fm: "functionMaps s1 (resolve E p) = Some fm"
    and keys: "dom fm \<subseteq> dom tm"
    and absent: "tm t = None"
  shows "getFunctionMap E p t s =
           (Inl (Error (''Target '' @ t @ '' could not be found at '' @ p)), s1) \<and>
         (\<forall>q m. targetMap s q = Some m \<longrightarrow> targetMap s1 q = Some m) \<and>
         (\<forall>q m. functionMaps s q = Some m \<longrightarrow> functionMaps s1 q = Some m) \<and>
         (functionMaps s (resolve E p) \<noteq> None \<longrightarrow> s1 = s)"
proof -
  from keys absent have none: "fm t = None" by (auto simp: domIff subset_iff)
  show ?thesis
  proof (cases "targetMap s (resolve E p)")
    case (Some tm0)
    with tm have same: "s1 = s" by (simp add: getTargetMap_def Let_def)
    with fm none show ?thesis
      by (simp add: getFunctionMap_def populate_def notFound_def Let_def)
  next
    case None
    with both have nofm: "functionMaps s (resolve E p) = None" by simp
    obtain r0 s0 where ast: "getAST E (resolve E p) s = (r0, s0)"
      by (cases "getAST E (resolve E p) s")
    note fr = getAST_frame(1,2) [OF ast]
    from tm None ast fm none nofm fr show ?thesis
      by (auto simp: getFunctionMap_def populate_def getTargetMap_def notFound_def Let_def
          split: sum.splits prod.splits)
  qed
qed

theorem getFunctionMap_unknown_target_witness:
  "getTargetMap exampleEnv ''a.sol'' loadedPool = (Inr [''A'' \<mapsto> 1, ''B'' \<mapsto> 1], loadedPool) \<and>
   [''A'' \<mapsto> 1::nat, ''B'' \<mapsto> 1] ''DoesNotExist'' = None \<and>
   getFunctionMap exampleEnv ''a.sol'' ''DoesNotExist'' loadedPool =
     (Inl (Error ''Target DoesNotExist could not be found at a.sol''), loadedPool) \<and>
   getFunctionMap exampleEnv ''a.sol'' ''DoesNotExist'' examplePool =
     (Inl (Error ''Target DoesNotExist could not be found at a.sol''), loadedPool)"
proof -
  let ?tm = "[''A'' \<mapsto> 1::nat, ''B'' \<mapsto> 1]"
  let ?fm = "[''A'' \<mapsto> [''f'' \<mapsto> 1::nat], ''B'' \<mapsto> Map.empty]"
  have both: "(targetMap loadedPool (resolve exampleEnv ''a.sol'') = None) =
      (functionMaps loadedPool (resolve exampleEnv ''a.sol'') = None)"
    by (simp add: resolve_example loadedPool_def)
  have both0: "(targetMap examplePool (resolve exampleEnv ''a.sol'') = None) =
      (functionMaps examplePool (resolve exampleEnv ''a.sol'') = None)"
    by (simp add: newTargetPool_def)
  have fm: "functionMaps loadedPool (resolve exampleEnv ''a.sol'') = Some ?fm"
    by (simp add: resolve_example loadedPool_def)
  have keys: "dom ?fm \<subseteq> dom ?tm" by simp
  have absent: "?tm ''DoesNotExist'' = None" by simp
  from getFunctionMap_unknown_target [OF both getTargetMap_loaded fm keys absent]
    getFunctionMap_unknown_target [OF both0 getTargetMap_example fm keys absent]
    getTargetMap_loaded absent
  show ?thesis by simp
qed

subsection \<open>The target map and the function maps are cached together\<close>

text \<open>
  C9. Start from a pool in which the target-map cache and the function-map cache have
  entries for the same files, as in a new pool. After a successful \<^verbatim>\<open>getTargetMap(p)\<close>
  or \<^verbatim>\<open>getFunctionMap(p, t)\<close> the two caches still have entries for the same files,
  and both have one for the resolved path. If the entries were there before, the call
  changed nothing; if not, the call ran the target-map generator exactly once, as its
  last invocation, and the two entries are the two parts of that one result. After
  the call, \<^verbatim>\<open>getTargetMap(p)\<close> returns the cached map and \<^verbatim>\<open>getFunctionMap(p, t')\<close>,
  for any name, leaves the pool as it is: no generator is invoked.
\<close>

theorem maps_populated_together:
  assumes inv: "dom (targetMap s) = dom (functionMaps s)"
    and ok: "getTargetMap E p s = (Inr r, s') \<or> getFunctionMap E p t s = (Inr r', s')"
  shows "dom (targetMap s') = dom (functionMaps s') \<and>
         (\<exists>tm fm. targetMap s' (resolve E p) = Some tm \<and>
            functionMaps s' (resolve E p) = Some fm \<and>
            (targetMap s (resolve E p) \<noteq> None \<longrightarrow> s' = s) \<and>
            (targetMap s (resolve E p) = None \<longrightarrow>
               (\<exists>evs ast. invocations s' = invocations s @ evs @ [TargetMapGen ast] \<and>
                  filter isTargetMapGen evs = [] \<and>
                  targetMapGenerator E (invocations s @ evs) ast = Inr (tm, fm))) \<and>
            getTargetMap E p s' = (Inr tm, s') \<and>
            (\<forall>t'. snd (getFunctionMap E p t' s') = s'))"
proof -
  let ?a = "resolve E p"
  from inv have both: "(targetMap s ?a = None) = (functionMaps s ?a = None)"
    by (metis domIff)
  obtain r0 s0 where ast: "getAST E ?a s = (r0, s0)" by (cases "getAST E ?a s")
  note fr = getAST_frame(1,2) [OF ast]
  from getAST_invocations [OF ast] obtain evs where
    evs: "invocations s0 = invocations s @ evs" "filter isTargetMapGen evs = []" by blast
  show ?thesis
  proof (cases "targetMap s ?a")
    case (Some tm0)
    with both obtain fm0 where fm0: "functionMaps s ?a = Some fm0" by auto
    from ok Some fm0 have same: "s' = s"
      by (auto simp: getTargetMap_def getFunctionMap_def populate_def Let_def
          split: option.splits)
    with Some fm0 inv show ?thesis
      by (auto simp: getTargetMap_def getFunctionMap_def populate_def Let_def
          split: option.splits)
  next
    case None
    with both have nofm: "functionMaps s ?a = None" by simp
    from ok None nofm ast obtain ast0 tm fm where
      r0: "r0 = Inr ast0" and
      gen: "targetMapGenerator E (invocations s0) ast0 = Inr (tm, fm)" and
      s': "s' = s0\<lparr>invocations := invocations s0 @ [TargetMapGen ast0],
                 targetMap := (targetMap s0)(?a \<mapsto> tm),
                 functionMaps := (functionMaps s0)(?a \<mapsto> fm)\<rparr>"
      by (auto simp: getTargetMap_def getFunctionMap_def populate_def Let_def
          split: option.splits sum.splits prod.splits)
    have d: "dom (targetMap s') = dom (functionMaps s')"
      using s' fr inv by simp
    have g: "getTargetMap E p s' = (Inr tm, s')"
      using s' by (simp add: getTargetMap_def Let_def)
    have f: "\<forall>t'. snd (getFunctionMap E p t' s') = s'"
      using s' by (simp add: getFunctionMap_def populate_def Let_def split: option.splits)
    have e: "invocations s' = invocations s @ evs @ [TargetMapGen ast0]"
      using s' evs by simp
    from d g f e gen evs None s' show ?thesis
      by (intro conjI exI [of _ tm] exI [of _ fm]) auto
  qed
qed

theorem maps_populated_together_witness:
  "dom (targetMap examplePool) = dom (functionMaps examplePool) \<and>
   getTargetMap exampleEnv ''a.sol'' examplePool = (Inr [''A'' \<mapsto> 1, ''B'' \<mapsto> 1], loadedPool) \<and>
   dom (targetMap loadedPool) = dom (functionMaps loadedPool) \<and>
   targetMap loadedPool ''/cwd/a.sol'' \<noteq> None \<and> functionMaps loadedPool ''/cwd/a.sol'' \<noteq> None \<and>
   snd (getFunctionMap exampleEnv ''a.sol'' ''A'' loadedPool) = loadedPool"
proof -
  have inv: "dom (targetMap examplePool) = dom (functionMaps examplePool)"
    by (simp add: newTargetPool_def)
  have ok: "getTargetMap exampleEnv ''a.sol'' examplePool = (Inr [''A'' \<mapsto> 1, ''B'' \<mapsto> 1], loadedPool) \<or>
      getFunctionMap exampleEnv ''a.sol'' ''A'' examplePool = (Inr [''f'' \<mapsto> 1], loadedPool)"
    by (simp add: getTargetMap_example)
  from maps_populated_together [OF inv ok] inv getTargetMap_example
  show ?thesis by (auto simp: resolve_example)
qed

subsection \<open>What holds of every pool the code can produce\<close>

lemma paired_dom: "paired s \<longleftrightarrow> dom (targetMap s) = dom (functionMaps s)"
proof
  assume "paired s"
  then have "\<And>q. (q \<in> dom (targetMap s)) = (q \<in> dom (functionMaps s))"
    by (simp add: paired_def domIff)
  then show "dom (targetMap s) = dom (functionMaps s)" by blast
next
  assume "dom (targetMap s) = dom (functionMaps s)"
  then have "\<And>q. (q \<in> dom (targetMap s)) = (q \<in> dom (functionMaps s))" by simp
  then have "\<And>q. (targetMap s q = None) = (functionMaps s q = None)"
    unfolding domIff by blast
  then show "paired s" by (simp add: paired_def)
qed






















subsection \<open>No entry is replaced\<close>



subsection \<open>The caches are keyed by the resolved path\<close>



subsection \<open>No graph and no target is ever returned\<close>

text \<open>
  C2 does not hold of the code. On a new pool, with collaborators that all succeed,
  \<^verbatim>\<open>getCFG("/a.sol", "A")\<close> throws a TypeError, and throws it again at a second call:
  no graph is computed, none is returned, and the graph generator is not invoked.
  The same happens once the syntax tree of the file is cached.
\<close>

theorem getCFG_throws_at_every_call:
  "getCFG exampleEnv ''/a.sol'' ''A'' examplePool = (Inl TypeError, examplePool) \<and>
   getCFG exampleEnv ''/a.sol'' ''A'' (snd (getCFG exampleEnv ''/a.sol'' ''A'' examplePool)) =
     (Inl TypeError, examplePool) \<and>
   invocations (snd (getCFG exampleEnv ''/a.sol'' ''A''
     (snd (getCFG exampleEnv ''/a.sol'' ''A'' examplePool)))) = [] \<and>
   fst (getCFG exampleEnv ''a.sol'' ''A'' loadedPool) = Inl TypeError"
  by (simp add: run_defs)


end
